theory Spec2Isabelle
  imports Complex_Main "HOL-Library.Char_ord" "HOL-Library.List_Lexorder"
begin

section \<open>Python values, as \<open>json.loads\<close> produces them\<close>

text \<open>
  A record of the log is whatever \<open>json.loads\<close> returns for a line: \<open>None\<close>, a bool, an
  int, a float, a str, a list or a dict. A dict is an association list in insertion order;
  its keys are distinct, and \<open>map_of\<close> is the lookup.

  Floats carry their exact rational value: the rounding of IEEE-754 doubles, overflow,
  infinities and NaN objects inside a record are outside this model.

  The exceptions the extractor can let escape are \<open>AttributeError\<close> (a \<open>.get\<close> or
  \<open>.lower\<close> on a value that has no such method) and \<open>TypeError\<close> (arithmetic on
  \<open>None\<close>, iteration over a value that is not iterable).
\<close>

datatype pyerr = AttributeError | TypeError

datatype pyval =
    PNone
  | PBool bool
  | PInt int
  | PFloat rat
  | PStr string
  | PList "pyval list"
  | PDict "(string \<times> pyval) list"

type_synonym pydict = "(string \<times> pyval) list"

text \<open>Sequencing of steps that may raise: the first exception ends the computation.\<close>

definition pbind :: "'e + 'a \<Rightarrow> ('a \<Rightarrow> 'e + 'b) \<Rightarrow> 'e + 'b" where
  "pbind m f = (case m of Inl e \<Rightarrow> Inl e | Inr x \<Rightarrow> f x)"

text \<open>Truth value of an object, as \<open>not x\<close> and \<open>x and ...\<close> test it.\<close>

fun truthy :: "pyval \<Rightarrow> bool" where
  "truthy PNone = False"
| "truthy (PBool b) = b"
| "truthy (PInt i) = (i \<noteq> 0)"
| "truthy (PFloat r) = (r \<noteq> 0)"
| "truthy (PStr s) = (s \<noteq> [])"
| "truthy (PList xs) = (xs \<noteq> [])"
| "truthy (PDict kvs) = (kvs \<noteq> [])"

text \<open>\<open>d.get(k, default)\<close> on a dict whose items are \<open>kvs\<close>.\<close>

definition dget :: "pydict \<Rightarrow> string \<Rightarrow> pyval \<Rightarrow> pyval" where
  "dget kvs k d = (case map_of kvs k of None \<Rightarrow> d | Some v \<Rightarrow> v)"

text \<open>\<open>x.get(k, default)\<close> on any object: only a dict has the method.\<close>

fun py_get :: "pyval \<Rightarrow> string \<Rightarrow> pyval \<Rightarrow> pyerr + pyval" where
  "py_get (PDict kvs) k d = Inr (dget kvs k d)"
| "py_get _ k d = Inl AttributeError"


text \<open>The numeric value of an operand of float arithmetic (\<open>bool\<close> is a subclass of
  \<open>int\<close>); \<open>None\<close> for an operand that makes \<open>+\<close> or \<open>*\<close> with a float raise
  \<open>TypeError\<close>.\<close>

fun py_num :: "pyval \<Rightarrow> rat option" where
  "py_num (PInt i) = Some (of_int i)"
| "py_num (PFloat r) = Some r"
| "py_num (PBool b) = Some (if b then 1 else 0)"
| "py_num _ = None"

definition py_mul_float :: "pyval \<Rightarrow> rat \<Rightarrow> pyerr + rat" where
  "py_mul_float v f = (case py_num v of None \<Rightarrow> Inl TypeError | Some x \<Rightarrow> Inr (x * f))"

definition py_add_float :: "pyval \<Rightarrow> rat \<Rightarrow> pyerr + rat" where
  "py_add_float v f = (case py_num v of None \<Rightarrow> Inl TypeError | Some x \<Rightarrow> Inr (x + f))"

section \<open>Strings\<close>

text \<open>\<open>s.replace(c, "")\<close> for a single character \<open>c\<close>.\<close>

definition remove_char :: "char \<Rightarrow> string \<Rightarrow> string" where
  "remove_char c s = filter (\<lambda>x. x \<noteq> c) s"

text \<open>\<open>s.split(c)\<close> for a single character separator: one more token than separators,
  empty tokens kept.\<close>

fun split_on :: "char \<Rightarrow> string \<Rightarrow> string list" where
  "split_on c [] = [[]]"
| "split_on c (x # xs) =
     (if x = c then [] # split_on c xs
      else (case split_on c xs of [] \<Rightarrow> [[x]] | t # ts \<Rightarrow> (x # t) # ts))"

text \<open>\<open>s.lower()\<close>: the ASCII capitals become small letters. No character outside ASCII
  has a lower-case form among the letters of \<open>true\<close>, so such characters are left as they
  are.\<close>

definition lower_char :: "char \<Rightarrow> char" where
  "lower_char c =
     (case map_of (zip ''ABCDEFGHIJKLMNOPQRSTUVWXYZ'' ''abcdefghijklmnopqrstuvwxyz'') c of
        None \<Rightarrow> c
      | Some l \<Rightarrow> l)"

definition lower :: "string \<Rightarrow> string" where
  "lower s = map lower_char s"

subsection \<open>A decimal reader for \<open>float(str)\<close>\<close>

text \<open>
  The extractor is parametric in the builtin \<open>float\<close> on strings (\<open>None\<close> stands for
  \<open>ValueError\<close>). \<open>py_float\<close> is the builtin on decimal literals: surrounding white space,
  an optional sign, digits with an optional fraction, an optional exponent. It is used
  for the concrete inputs below.
\<close>

definition is_space :: "char \<Rightarrow> bool" where
  "is_space c = (c \<in> set [CHR '' '', CHR 0x09, CHR 0x0A, CHR 0x0B, CHR 0x0C, CHR 0x0D])"

definition strip :: "string \<Rightarrow> string" where
  "strip s = rev (dropWhile is_space (rev (dropWhile is_space s)))"

definition is_digit :: "char \<Rightarrow> bool" where
  "is_digit c = (CHR ''0'' \<le> c \<and> c \<le> CHR ''9'')"

definition digits_val :: "string \<Rightarrow> nat" where
  "digits_val s = foldl (\<lambda>a c. 10 * a + (of_char c - 48)) 0 s"

definition unsigned_of :: "string \<Rightarrow> (bool \<times> string)" where
  "unsigned_of s =
     (case s of
        [] \<Rightarrow> (False, [])
      | c # r \<Rightarrow> if c = CHR ''-'' then (True, r) else if c = CHR ''+'' then (False, r)
                 else (False, s))"

definition is_e :: "char \<Rightarrow> bool" where
  "is_e c = (c = CHR ''e'' \<or> c = CHR ''E'')"

definition mantissa_of :: "string \<Rightarrow> rat option" where
  "mantissa_of m =
     (let ip = takeWhile is_digit m; r = dropWhile is_digit m in
      case r of
        [] \<Rightarrow> if ip = [] then None else Some (of_nat (digits_val ip))
      | c # fp \<Rightarrow>
          if c = CHR ''.'' \<and> list_all is_digit fp \<and> (ip \<noteq> [] \<or> fp \<noteq> [])
          then Some (of_nat (digits_val ip) + of_nat (digits_val fp) / 10 ^ length fp)
          else None)"

definition exponent_of :: "string \<Rightarrow> int option" where
  "exponent_of e =
     (case e of
        [] \<Rightarrow> Some 0
      | _ # r \<Rightarrow>
          (let (neg, ds) = unsigned_of r in
           if ds \<noteq> [] \<and> list_all is_digit ds
           then Some (if neg then - int (digits_val ds) else int (digits_val ds))
           else None))"

definition py_float :: "string \<Rightarrow> rat option" where
  "py_float s =
     (let (neg, u) = unsigned_of (strip s);
          m = takeWhile (\<lambda>c. \<not> is_e c) u;
          e = dropWhile (\<lambda>c. \<not> is_e c) u
      in case mantissa_of m of
           None \<Rightarrow> None
         | Some x \<Rightarrow>
             (case exponent_of e of
                None \<Rightarrow> None
              | Some k \<Rightarrow>
                  Some ((if neg then - x else x)
                        * (if k < 0 then 1 / 10 ^ nat (- k) else 10 ^ nat k))))"

section \<open>ObjectExtractor\<close>

text \<open>The list comprehension \<open>[float(cov) for cov in value]\<close> inside the \<open>try\<close>: one
  token that \<open>float\<close> rejects raises \<open>ValueError\<close> and no list is built.\<close>

fun float_each :: "(string \<Rightarrow> rat option) \<Rightarrow> string list \<Rightarrow> rat list option" where
  "float_each float_of [] = Some []"
| "float_each float_of (t # ts) =
     (case float_of t of
        None \<Rightarrow> None
      | Some x \<Rightarrow> (case float_each float_of ts of None \<Rightarrow> None | Some xs \<Rightarrow> Some (x # xs)))"

fun convert_to_list :: "(string \<Rightarrow> rat option) \<Rightarrow> pyval \<Rightarrow> pyval list" where
  "convert_to_list float_of (PStr s) =
     (case float_each float_of
             (split_on CHR '','' (remove_char CHR '']'' (remove_char CHR ''['' s))) of
        None \<Rightarrow> []
      | Some xs \<Rightarrow> map PFloat xs)"
| "convert_to_list float_of (PList xs) = xs"
| "convert_to_list float_of _ = []"


fun get_success :: "pyval \<Rightarrow> pyerr + bool" where
  "get_success PNone = Inr False"
| "get_success (PBool b) = Inr b"
| "get_success (PStr s) = Inr (lower s = ''true'')"
| "get_success _ = Inl AttributeError"

text \<open>
  \<open>parse_ego\<close>. The chain of \<open>.get\<close> calls runs in the order of the source; the
  early \<open>return {}\<close> gives the empty dict. The time stamp is
  \<open>sec + nanosec * 1e-9\<close>, with \<open>None\<close> as the default of \<open>sec\<close> and \<open>0\<close> as the
  default of \<open>nanosec\<close>; the product is evaluated before the sum.
\<close>

definition parse_ego :: "pyval \<Rightarrow> pyerr + pydict" where
  "parse_ego frame =
     pbind (py_get frame ''Ego'' (PDict [])) (\<lambda>ego.
     pbind (py_get ego ''TransformStamped'' (PDict [])) (\<lambda>transform.
     pbind (py_get transform ''transform'' (PDict [])) (\<lambda>transform_data.
     pbind (py_get transform ''header'' (PDict [])) (\<lambda>header.
     pbind (py_get header ''stamp'' (PDict [])) (\<lambda>header_stamp.
     if \<not> truthy header_stamp then Inr []
     else
     pbind (py_get header_stamp ''sec'' PNone) (\<lambda>sec.
     pbind (py_get header_stamp ''nanosec'' (PInt 0)) (\<lambda>nanosec.
     pbind (py_mul_float nanosec (1 / 10 ^ 9)) (\<lambda>ns.
     pbind (py_add_float sec ns) (\<lambda>timestamp.
     pbind (py_get transform_data ''translation'' (PDict [])) (\<lambda>translation.
     pbind (py_get transform_data ''rotation'' (PDict [])) (\<lambda>rotation.
     pbind (py_get translation ''x'' PNone) (\<lambda>px.
     pbind (py_get translation ''y'' PNone) (\<lambda>py.
     pbind (py_get translation ''z'' PNone) (\<lambda>pz.
     pbind (py_get rotation ''x'' PNone) (\<lambda>ox.
     pbind (py_get rotation ''y'' PNone) (\<lambda>oy.
     pbind (py_get rotation ''z'' PNone) (\<lambda>oz.
     pbind (py_get rotation ''w'' PNone) (\<lambda>ow.
     Inr [(''timestamp'', PFloat timestamp),
          (''object_type'', PStr ''Ego''),
          (''position_x'', px),
          (''position_y'', py),
          (''position_z'', pz),
          (''orientation_x'', ox),
          (''orientation_y'', oy),
          (''orientation_z'', oz),
          (''orientation_w'', ow)]))))))))))))))))))"





section \<open>DatasetManager\<close>

text \<open>
  The table \<open>self.data\<close>, read from the CSV file the extractor wrote. A row holds the
  columns the manager reads (\<open>label\<close>, \<open>status\<close> and \<open>distance_from_ego\<close>, whose missing
  cells pandas reads as NaN: \<open>None\<close> here), the column \<open>general_category\<close> that
  \<open>__init__\<close> writes, and in its extension every other column of the file. The
  \<open>distance_from_ego\<close> column is a float column. The column \<open>distance_bin\<close> does not exist
  until an aggregation assigns it, so it is kept beside the rows: \<open>None\<close> while the table
  has no such column, otherwise one cell per row.

  \<open>category_mapping\<close> is a dict from category to list of labels, in insertion order.
\<close>

record row =
  label :: "string option"
  status :: "string option"
  distance_from_ego :: "rat option"
  general_category :: string

record 'a DatasetManager =
  data :: "'a row_scheme list"
  distance_bin :: "rat option list option"
  category_mapping :: "(string \<times> string list) list"

text \<open>The two loops of \<open>map_to_category\<close> that fill \<open>reverse_mapping\<close>: a later
  assignment to the same key replaces the earlier one.\<close>

fun reverse_items :: "string \<Rightarrow> string list \<Rightarrow> (string \<rightharpoonup> string) \<Rightarrow> (string \<rightharpoonup> string)" where
  "reverse_items category [] reverse_mapping = reverse_mapping"
| "reverse_items category (item # items) reverse_mapping =
     reverse_items category items (reverse_mapping(item \<mapsto> category))"

fun reverse_categories :: "(string \<times> string list) list \<Rightarrow> (string \<rightharpoonup> string) \<Rightarrow> (string \<rightharpoonup> string)" where
  "reverse_categories [] reverse_mapping = reverse_mapping"
| "reverse_categories ((category, labels) # rest) reverse_mapping =
     reverse_categories rest (reverse_items category labels reverse_mapping)"

definition map_to_category :: "(string \<times> string list) list \<Rightarrow> string \<Rightarrow> string" where
  "map_to_category mapping l =
     (case reverse_categories mapping Map.empty l of
        None \<Rightarrow> ''unclassified''
      | Some category \<Rightarrow> category)"

text \<open>\<open>_apply_category_mapping\<close>: a missing label is NaN, which is no key of
  \<open>reverse_mapping\<close>, so \<open>.get\<close> answers the default.\<close>

definition apply_category_mapping :: "'a DatasetManager \<Rightarrow> 'a DatasetManager" where
  "apply_category_mapping self =
     self\<lparr>data :=
       map (\<lambda>r. r\<lparr>general_category :=
              (case label r of
                 None \<Rightarrow> ''unclassified''
               | Some l \<Rightarrow> map_to_category (category_mapping self) l)\<rparr>)
           (data self)\<rparr>"

text \<open>\<open>__init__\<close>, from the rows of the file and the mapping.\<close>

definition DatasetManager_init :: "'a row_scheme list \<Rightarrow> (string \<times> string list) list \<Rightarrow> 'a DatasetManager" where
  "DatasetManager_init file_rows mapping =
     apply_category_mapping
       \<lparr>data = file_rows, distance_bin = None, category_mapping = mapping\<rparr>"

record metrics =
  TPrate :: rat
  mAP :: rat

text \<open>The locals of \<open>calculate_category_metrics\<close>: the rows of the category, and the
  three counts, the first one halved.\<close>

definition category_data :: "'a DatasetManager \<Rightarrow> string \<Rightarrow> 'a row_scheme list" where
  "category_data self category = filter (\<lambda>r. general_category r = category) (data self)"

definition tp_of :: "'a DatasetManager \<Rightarrow> string \<Rightarrow> rat" where
  "tp_of self category =
     of_nat (length (filter (\<lambda>r. status r = Some ''TP'') (category_data self category))) / 2"

definition fp_of :: "'a DatasetManager \<Rightarrow> string \<Rightarrow> rat" where
  "fp_of self category =
     of_nat (length (filter (\<lambda>r. status r = Some ''FP'') (category_data self category)))"

definition fn_of :: "'a DatasetManager \<Rightarrow> string \<Rightarrow> rat" where
  "fn_of self category =
     of_nat (length (filter (\<lambda>r. status r = Some ''FN'') (category_data self category)))"

definition calculate_category_metrics :: "'a DatasetManager \<Rightarrow> string \<Rightarrow> metrics" where
  "calculate_category_metrics self category =
     (let tp = tp_of self category;
          fp = fp_of self category;
          fn = fn_of self category;
          tprate = (if tp + fn > 0 then tp / (tp + fn) else 0);
          map_value = (if tp + fp > 0 then tp / (tp + fp) else 0)
      in \<lparr>TPrate = tprate, mAP = map_value\<rparr>)"

text \<open>\<open>Series.unique()\<close>: the distinct values in order of first appearance.\<close>

fun unique :: "'a list \<Rightarrow> 'a list" where
  "unique [] = []"
| "unique (x # xs) = x # filter (\<lambda>y. y \<noteq> x) (unique xs)"

text \<open>\<open>calculate_metrics\<close>: the dict \<open>metrics\<close> in insertion order.\<close>

definition calculate_metrics :: "'a DatasetManager \<Rightarrow> (string \<times> metrics) list" where
  "calculate_metrics self =
     map (\<lambda>category. (category, calculate_category_metrics self category))
       (filter (\<lambda>category. category \<noteq> ''unclassified'')
          (unique (map general_category (data self))))"

text \<open>
  One cell of \<open>(self.data['distance_from_ego'] // bin_size) * bin_size\<close>. A NaN distance
  gives NaN. Floor division of a float column by zero gives an infinity or NaN, and its
  product with zero is NaN.
\<close>

definition distance_bin_of :: "rat option \<Rightarrow> rat \<Rightarrow> rat option" where
  "distance_bin_of d bin_size =
     (case d of
        None \<Rightarrow> None
      | Some x \<Rightarrow> if bin_size = 0 then None else Some (of_int \<lfloor>x / bin_size\<rfloor> * bin_size))"

text \<open>
  \<open>groupby([k1, k2]).size().unstack(fill_value=0)\<close> of pandas, on the two key columns
  zipped. \<open>groupby\<close> drops every row with a NaN in a key (\<open>dropna=True\<close> is the default)
  and sorts the keys; \<open>size\<close> counts the rows of each group; \<open>unstack\<close> gives the table
  with the values of the first key as index, the values of the second key as columns, and
  0 where a pair has no row.
\<close>

record 'k table =
  tbl_index :: "rat list"
  tbl_columns :: "'k list"
  tbl_cells :: "nat list list"

fun present_keys :: "('a option \<times> 'b option) list \<Rightarrow> ('a \<times> 'b) list" where
  "present_keys [] = []"
| "present_keys ((Some a, Some b) # ks) = (a, b) # present_keys ks"
| "present_keys (_ # ks) = present_keys ks"

definition groupby_size_unstack :: "(rat option \<times> ('k::linorder) option) list \<Rightarrow> 'k table" where
  "groupby_size_unstack keys =
     (let kept = present_keys keys;
          idx = sort (remdups (map fst kept));
          cols = sort (remdups (map snd kept))
      in \<lparr>tbl_index = idx, tbl_columns = cols,
          tbl_cells = map (\<lambda>b. map (\<lambda>c. count_list kept (b, c)) cols) idx\<rparr>)"


definition distance_based_fp_tp_fn :: "'a DatasetManager \<Rightarrow> rat \<Rightarrow> 'a DatasetManager \<times> string table" where
  "distance_based_fp_tp_fn self bin_size =
     (let bins = map (\<lambda>r. distance_bin_of (distance_from_ego r) bin_size) (data self);
          self' = self\<lparr>distance_bin := Some bins\<rparr>;
          grouped = groupby_size_unstack (zip bins (map status (data self')))
      in (self', grouped))"

definition distance_based_categoly_analysis :: "'a DatasetManager \<Rightarrow> rat \<Rightarrow> 'a DatasetManager \<times> string table" where
  "distance_based_categoly_analysis self bin_size =
     (let bins = map (\<lambda>r. distance_bin_of (distance_from_ego r) bin_size) (data self);
          self' = self\<lparr>distance_bin := Some bins\<rparr>;
          grouped = groupby_size_unstack
                      (zip bins (map (\<lambda>r. Some (general_category r)) (data self')))
      in (self', grouped))"

text \<open>A sequence of aggregation calls on one manager, each with its bin size.\<close>

datatype aggregation = ByStatus rat | ByCategory rat

fun aggregate :: "'a DatasetManager \<Rightarrow> aggregation \<Rightarrow> 'a DatasetManager" where
  "aggregate self (ByStatus bin_size) = fst (distance_based_fp_tp_fn self bin_size)"
| "aggregate self (ByCategory bin_size) = fst (distance_based_categoly_analysis self bin_size)"

definition aggregate_all :: "'a DatasetManager \<Rightarrow> aggregation list \<Rightarrow> 'a DatasetManager" where
  "aggregate_all self calls = foldl aggregate self calls"

section \<open>Reference definitions and sample data\<close>

text \<open>Equality of two strings up to the case of their ASCII letters.\<close>

definition same_letter :: "char \<Rightarrow> char \<Rightarrow> bool" where
  "same_letter a b =
     (a = b
      \<or> (a, b) \<in> set (zip ''ABCDEFGHIJKLMNOPQRSTUVWXYZ'' ''abcdefghijklmnopqrstuvwxyz'')
      \<or> (b, a) \<in> set (zip ''ABCDEFGHIJKLMNOPQRSTUVWXYZ'' ''abcdefghijklmnopqrstuvwxyz''))"

definition equals_ignoring_case :: "string \<Rightarrow> string \<Rightarrow> bool" where
  "equals_ignoring_case s t = list_all2 same_letter s t"

text \<open>The category of a label, read off the mapping: the last entry whose label list holds
  the label, and \<open>unclassified\<close> when no entry does.\<close>

definition categoryOf :: "(string \<times> string list) list \<Rightarrow> string \<Rightarrow> string" where
  "categoryOf mapping l =
     (case filter (\<lambda>entry. l \<in> set (snd entry)) mapping of
        [] \<Rightarrow> ''unclassified''
      | e # es \<Rightarrow> fst (last (e # es)))"

text \<open>The number of rows of a category with a given status.\<close>

definition status_count :: "'a DatasetManager \<Rightarrow> string \<Rightarrow> string \<Rightarrow> nat" where
  "status_count self category s =
     length (filter (\<lambda>r. general_category r = category \<and> status r = Some s) (data self))"

text \<open>The bin size of an aggregation call.\<close>

definition bin_size_of :: "aggregation \<Rightarrow> rat" where
  "bin_size_of call = (case call of ByStatus b \<Rightarrow> b | ByCategory b \<Rightarrow> b)"

text \<open>A table of nine rows: six of category \<open>car\<close> (four TP, one FP, one FN), an ego
  row without label, status and distance, a bus and an unmapped label; and the mapping of
  \<open>main\<close>, shortened.\<close>

definition car_rows :: "row list" where
  "car_rows =
     [\<lparr>label = Some ''car'', status = Some ''TP'', distance_from_ego = Some (234 / 10), general_category = []\<rparr>,
      \<lparr>label = Some ''vehicle.car'', status = Some ''TP'', distance_from_ego = Some 5, general_category = []\<rparr>,
      \<lparr>label = Some ''car'', status = Some ''FP'', distance_from_ego = None, general_category = []\<rparr>,
      \<lparr>label = Some ''car'', status = Some ''TP'', distance_from_ego = Some 31, general_category = []\<rparr>,
      \<lparr>label = None, status = None, distance_from_ego = None, general_category = []\<rparr>,
      \<lparr>label = Some ''car'', status = Some ''FN'', distance_from_ego = Some 12, general_category = []\<rparr>,
      \<lparr>label = Some ''bus'', status = Some ''TP'', distance_from_ego = Some 47, general_category = []\<rparr>,
      \<lparr>label = Some ''animal'', status = Some ''FP'', distance_from_ego = Some 25, general_category = []\<rparr>,
      \<lparr>label = Some ''vehicle.car'', status = Some ''TP'', distance_from_ego = Some 29, general_category = []\<rparr>]"

definition main_mapping :: "(string \<times> string list) list" where
  "main_mapping =
     [(''car'', [''car'', ''vehicle.car'']),
      (''large_vehicle'', [''bus'', ''truck'', ''trailer'']),
      (''pedestrian'', [''pedestrian'', ''pedestrian.adult'']),
      (''bike'', [''bicycle'', ''vehicle.bicycle'', ''vehicle.motorcycle''])]"

text \<open>The coercion of a value to a numeric list as the specification words it: a list is
  returned as it is; of a string one pair of enclosing brackets is stripped if present,
  the rest is split on commas and every token is read as a float, all or nothing; any
  other value gives the empty list.\<close>

definition strip_enclosing_brackets :: "string \<Rightarrow> string" where
  "strip_enclosing_brackets s =
     (if 2 \<le> length s \<and> hd s = CHR ''['' \<and> last s = CHR '']'' then butlast (tl s) else s)"

fun toNumericList :: "(string \<Rightarrow> rat option) \<Rightarrow> pyval \<Rightarrow> pyval list" where
  "toNumericList float_of (PList xs) = xs"
| "toNumericList float_of (PStr s) =
     (case float_each float_of (split_on CHR '','' (strip_enclosing_brackets s)) of
        None \<Rightarrow> []
      | Some xs \<Rightarrow> map PFloat xs)"
| "toNumericList float_of _ = []"

definition without_brackets :: "string \<Rightarrow> string" where
  "without_brackets s = filter (\<lambda>c. c \<noteq> CHR ''['' \<and> c \<noteq> CHR '']'') s"



text \<open>The three stages of \<open>parse_ego\<close>: the chain of \<open>.get\<close> calls down to
  \<open>header.stamp\<close>, the time stamp, and the dict of the pose.\<close>

definition ego_parts :: "pyval \<Rightarrow> pyerr + pyval \<times> pyval" where
  "ego_parts frame =
     pbind (py_get frame ''Ego'' (PDict [])) (\<lambda>ego.
     pbind (py_get ego ''TransformStamped'' (PDict [])) (\<lambda>transform.
     pbind (py_get transform ''transform'' (PDict [])) (\<lambda>transform_data.
     pbind (py_get transform ''header'' (PDict [])) (\<lambda>header.
     pbind (py_get header ''stamp'' (PDict [])) (\<lambda>header_stamp.
     Inr (transform_data, header_stamp))))))"

definition ego_timestamp :: "pyval \<Rightarrow> pyerr + rat" where
  "ego_timestamp header_stamp =
     pbind (py_get header_stamp ''sec'' PNone) (\<lambda>sec.
     pbind (py_get header_stamp ''nanosec'' (PInt 0)) (\<lambda>nanosec.
     pbind (py_mul_float nanosec (1 / 10 ^ 9)) (\<lambda>ns.
     py_add_float sec ns)))"

definition ego_pose :: "rat \<Rightarrow> pyval \<Rightarrow> pyerr + pydict" where
  "ego_pose timestamp transform_data =
     pbind (py_get transform_data ''translation'' (PDict [])) (\<lambda>translation.
     pbind (py_get transform_data ''rotation'' (PDict [])) (\<lambda>rotation.
     pbind (py_get translation ''x'' PNone) (\<lambda>px.
     pbind (py_get translation ''y'' PNone) (\<lambda>py.
     pbind (py_get translation ''z'' PNone) (\<lambda>pz.
     pbind (py_get rotation ''x'' PNone) (\<lambda>ox.
     pbind (py_get rotation ''y'' PNone) (\<lambda>oy.
     pbind (py_get rotation ''z'' PNone) (\<lambda>oz.
     pbind (py_get rotation ''w'' PNone) (\<lambda>ow.
     Inr [(''timestamp'', PFloat timestamp),
          (''object_type'', PStr ''Ego''),
          (''position_x'', px),
          (''position_y'', py),
          (''position_z'', pz),
          (''orientation_x'', ox),
          (''orientation_y'', oy),
          (''orientation_z'', oz),
          (''orientation_w'', ow)])))))))))"

text \<open>\<open>frame.Ego.TransformStamped.header.stamp\<close> as \<open>parse_ego\<close> reads it, every default
  being the empty dict.\<close>

definition header_stamp_of :: "pyval \<Rightarrow> pyerr + pyval" where
  "header_stamp_of frame =
     pbind (py_get frame ''Ego'' (PDict [])) (\<lambda>ego.
     pbind (py_get ego ''TransformStamped'' (PDict [])) (\<lambda>transform.
     pbind (py_get transform ''transform'' (PDict [])) (\<lambda>transform_data.
     pbind (py_get transform ''header'' (PDict [])) (\<lambda>header.
     py_get header ''stamp'' (PDict [])))))"













section \<open>Properties\<close>

subsection \<open>Boolean coercion\<close>

lemma lower_char_true_letters:
  "lower_char c = CHR ''t'' \<longleftrightarrow> same_letter c CHR ''t''"
  "lower_char c = CHR ''r'' \<longleftrightarrow> same_letter c CHR ''r''"
  "lower_char c = CHR ''u'' \<longleftrightarrow> same_letter c CHR ''u''"
  "lower_char c = CHR ''e'' \<longleftrightarrow> same_letter c CHR ''e''"
  by (simp_all add: lower_char_def same_letter_def)

lemma lower_eq_true: "lower s = ''true'' \<longleftrightarrow> equals_ignoring_case s ''true''"
  by (auto simp add: lower_def equals_ignoring_case_def lower_char_true_letters list_all2_Cons2 map_eq_Cons_conv)

text \<open>
  Claim C8. \<open>get_success\<close> maps \<open>None\<close> to false and a boolean to itself, and maps a string
  to true exactly when the string equals \<open>true\<close> up to case; so \<open>True\<close> and \<open>"TRUE"\<close> give
  true, \<open>"false"\<close> and \<open>None\<close> give false.
\<close>

theorem get_success_spec:
  "get_success PNone = Inr False
   \<and> get_success (PBool b) = Inr b
   \<and> get_success (PStr s) = Inr (equals_ignoring_case s ''true'')
   \<and> get_success (PBool True) = Inr True
   \<and> get_success (PStr ''TRUE'') = Inr True
   \<and> get_success (PStr ''false'') = Inr False"
  by (simp add: lower_eq_true) (simp add: equals_ignoring_case_def same_letter_def)

subsection \<open>Category mapping\<close>

lemma reverse_items_apply:
  "reverse_items c ls m l = (if l \<in> set ls then Some c else m l)"
  by (induction ls arbitrary: m) auto

lemma reverse_categories_apply:
  "reverse_categories mapping m l =
     (case filter (\<lambda>entry. l \<in> set (snd entry)) mapping of
        [] \<Rightarrow> m l
      | e # es \<Rightarrow> Some (fst (last (e # es))))"
proof (induction mapping arbitrary: m)
  case Nil
  show ?case by simp
next
  case (Cons entry rest)
  obtain c ls where entry: "entry = (c, ls)" by (cases entry)
  show ?case
    by (simp add: entry Cons.IH reverse_items_apply split: list.splits)
qed

text \<open>
  Claim C9. For every mapping and label, \<open>map_to_category\<close> answers the category whose
  label list holds the label, \<open>unclassified\<close> when none does, and the category listed last
  when several do.
\<close>

theorem map_to_category_spec:
  "map_to_category mapping l = categoryOf mapping l
   \<and> map_to_category [(''car'', [''car'', ''van'']), (''large_vehicle'', [''bus'', ''van''])] ''van''
       = ''large_vehicle''
   \<and> map_to_category [(''car'', [''car'', ''van'']), (''large_vehicle'', [''bus'', ''van''])] ''tram''
       = ''unclassified''"
  by (simp add: map_to_category_def categoryOf_def reverse_categories_apply split: list.splits)


subsection \<open>Metrics\<close>

lemma filter_filter_status:
  "length (filter (\<lambda>r. status r = Some s) (category_data self c)) = status_count self c s"
  by (simp add: category_data_def status_count_def conj_commute)

text \<open>
  Claim C1. For every table and category: TP is half the number of rows of the category
  with status TP, FP and FN are the numbers of rows with status FP and FN, TPrate is
  TP / (TP + FN) when TP + FN is positive and 0 otherwise, mAP is TP / (TP + FP) when
  TP + FP is positive and 0 otherwise; with 4 TP rows, 1 FP row and 1 FN row the result is
  TP = 2, TPrate = 2/3 and mAP = 2/3.
\<close>

theorem calculate_category_metrics_spec:
  "tp_of self c = of_nat (status_count self c ''TP'') / 2
   \<and> fp_of self c = of_nat (status_count self c ''FP'')
   \<and> fn_of self c = of_nat (status_count self c ''FN'')
   \<and> TPrate (calculate_category_metrics self c) =
       (if tp_of self c + fn_of self c > 0 then tp_of self c / (tp_of self c + fn_of self c) else 0)
   \<and> mAP (calculate_category_metrics self c) =
       (if tp_of self c + fp_of self c > 0 then tp_of self c / (tp_of self c + fp_of self c) else 0)
   \<and> (status_count self c ''TP'' = 4 \<and> status_count self c ''FP'' = 1
        \<and> status_count self c ''FN'' = 1
       \<longrightarrow> tp_of self c = 2 \<and> TPrate (calculate_category_metrics self c) = 2 / 3
           \<and> mAP (calculate_category_metrics self c) = 2 / 3)"
  by (simp add: calculate_category_metrics_def Let_def tp_of_def fp_of_def fn_of_def
        filter_filter_status)

theorem calculate_category_metrics_witness:
  "status_count (DatasetManager_init car_rows main_mapping) ''car'' ''TP'' = 4
   \<and> status_count (DatasetManager_init car_rows main_mapping) ''car'' ''FP'' = 1
   \<and> status_count (DatasetManager_init car_rows main_mapping) ''car'' ''FN'' = 1
   \<and> tp_of (DatasetManager_init car_rows main_mapping) ''car'' = 2
   \<and> TPrate (calculate_category_metrics (DatasetManager_init car_rows main_mapping) ''car'') = 2 / 3
   \<and> mAP (calculate_category_metrics (DatasetManager_init car_rows main_mapping) ''car'') = 2 / 3"
proof -
  have counts:
    "status_count (DatasetManager_init car_rows main_mapping) ''car'' ''TP'' = 4"
    "status_count (DatasetManager_init car_rows main_mapping) ''car'' ''FP'' = 1"
    "status_count (DatasetManager_init car_rows main_mapping) ''car'' ''FN'' = 1"
    by code_simp+
  with calculate_category_metrics_spec [of "DatasetManager_init car_rows main_mapping" "''car''"]
  show ?thesis by simp
qed

lemma set_unique: "set (unique xs) = set xs"
  by (induction xs) auto

lemma distinct_unique: "distinct (unique xs)"
  by (induction xs) (auto simp: set_unique)

lemma map_of_map_key:
  "map_of (map (\<lambda>k. (k, f k)) ks) k = (if k \<in> set ks then Some (f k) else None)"
  by (induction ks) auto

text \<open>
  Claim C7. \<open>calculate_metrics\<close> has exactly one entry for each category that some row
  carries, \<open>unclassified\<close> apart, and no other entry; the entry of a category is its
  \<open>calculate_category_metrics\<close>, and the category of a row is the one derived from its
  label by \<open>__init__\<close>.
\<close>

theorem calculate_metrics_spec:
  "distinct (map fst (calculate_metrics self))
   \<and> set (map fst (calculate_metrics self)) = general_category ` set (data self) - {''unclassified''}
   \<and> map_of (calculate_metrics self) c =
       (if c \<in> general_category ` set (data self) \<and> c \<noteq> ''unclassified''
        then Some (calculate_category_metrics self c) else None)
   \<and> map general_category (data (DatasetManager_init file_rows mapping)) =
       map (\<lambda>r. case label r of None \<Rightarrow> ''unclassified'' | Some l \<Rightarrow> map_to_category mapping l)
         file_rows"
proof -
  have keys: "map fst (calculate_metrics self) =
      filter (\<lambda>category. category \<noteq> ''unclassified'') (unique (map general_category (data self)))"
    by (simp add: calculate_metrics_def comp_def)
  have "distinct (map fst (calculate_metrics self))"
    unfolding keys by (simp add: distinct_unique)
  moreover have "set (map fst (calculate_metrics self)) =
      general_category ` set (data self) - {''unclassified''}"
    unfolding keys by (auto simp: set_unique)
  moreover have "map_of (calculate_metrics self) c =
       (if c \<in> general_category ` set (data self) \<and> c \<noteq> ''unclassified''
        then Some (calculate_category_metrics self c) else None)"
    unfolding calculate_metrics_def map_of_map_key by (auto simp: set_unique)
  moreover have "map general_category (data (DatasetManager_init file_rows mapping)) =
       map (\<lambda>r. case label r of None \<Rightarrow> ''unclassified'' | Some l \<Rightarrow> map_to_category mapping l)
         file_rows"
    by (simp add: DatasetManager_init_def apply_category_mapping_def comp_def
          cong: option.case_cong)
  ultimately show ?thesis by blast
qed

subsection \<open>Distance aggregation leaves the table alone\<close>

lemma data_aggregate: "data (aggregate self call) = data self"
  by (cases call) (simp_all add: distance_based_fp_tp_fn_def distance_based_categoly_analysis_def Let_def)

lemma mapping_aggregate: "category_mapping (aggregate self call) = category_mapping self"
  by (cases call) (simp_all add: distance_based_fp_tp_fn_def distance_based_categoly_analysis_def Let_def)

lemma bin_aggregate:
  "distance_bin (aggregate self call) =
     Some (map (\<lambda>r. distance_bin_of (distance_from_ego r) (bin_size_of call)) (data self))"
  by (cases call)
     (simp_all add: distance_based_fp_tp_fn_def distance_based_categoly_analysis_def Let_def
        bin_size_of_def)

lemma data_aggregate_all: "data (aggregate_all self calls) = data self"
  unfolding aggregate_all_def by (induction calls arbitrary: self) (simp_all add: data_aggregate)

lemma mapping_aggregate_all: "category_mapping (aggregate_all self calls) = category_mapping self"
  unfolding aggregate_all_def by (induction calls arbitrary: self) (simp_all add: mapping_aggregate)

lemma calculate_metrics_data:
  "data s = data s' \<Longrightarrow> calculate_metrics s = calculate_metrics s'"
  by (simp add: calculate_metrics_def calculate_category_metrics_def tp_of_def fp_of_def fn_of_def
        category_data_def)

text \<open>
  Claim C10. Any sequence of distance aggregations, with any bin sizes, changes the manager
  only in its \<open>distance_bin\<close> column: the rows with all their columns, hence their number
  and their \<open>general_category\<close>, and the mapping stay as they were, so \<open>calculate_metrics\<close>
  gives the same result; the column holds the bins of the last call.
\<close>

theorem aggregation_frame:
  "data (aggregate_all self calls) = data self
   \<and> length (data (aggregate_all self calls)) = length (data self)
   \<and> map general_category (data (aggregate_all self calls)) = map general_category (data self)
   \<and> category_mapping (aggregate_all self calls) = category_mapping self
   \<and> calculate_metrics (aggregate_all self calls) = calculate_metrics self
   \<and> aggregate_all self [] = self
   \<and> aggregate self call = self\<lparr>distance_bin := distance_bin (aggregate self call)\<rparr>
   \<and> distance_bin (aggregate_all self (calls @ [call])) =
       Some (map (\<lambda>r. distance_bin_of (distance_from_ego r) (bin_size_of call)) (data self))"
proof -
  have "distance_bin (aggregate_all self (calls @ [call])) =
       Some (map (\<lambda>r. distance_bin_of (distance_from_ego r) (bin_size_of call)) (data self))"
    using data_aggregate_all [of self calls]
    by (simp add: aggregate_all_def bin_aggregate)
  moreover have "aggregate self call = self\<lparr>distance_bin := distance_bin (aggregate self call)\<rparr>"
    by (cases call)
       (simp_all add: distance_based_fp_tp_fn_def distance_based_categoly_analysis_def Let_def)
  moreover have "calculate_metrics (aggregate_all self calls) = calculate_metrics self"
    by (rule calculate_metrics_data) (rule data_aggregate_all)
  moreover have "aggregate_all self [] = self"
    by (simp add: aggregate_all_def)
  ultimately show ?thesis
    by (simp add: data_aggregate_all mapping_aggregate_all)
qed

subsection \<open>Numeric-list coercion\<close>

lemma remove_both: "remove_char CHR '']'' (remove_char CHR ''['' s) = without_brackets s"
  by (simp add: remove_char_def without_brackets_def conj_commute)

lemma without_brackets_id:
  "CHR ''['' \<notin> set s \<Longrightarrow> CHR '']'' \<notin> set s \<Longrightarrow> without_brackets s = s"
  unfolding without_brackets_def by (rule filter_True) auto

lemma without_brackets_enclosed:
  "CHR ''['' \<notin> set s \<Longrightarrow> CHR '']'' \<notin> set s \<Longrightarrow> without_brackets (CHR ''['' # s @ '']'') = s"
  using without_brackets_id [of s] by (simp add: without_brackets_def)

lemma strip_enclosing_id:
  "CHR ''['' \<notin> set s \<Longrightarrow> strip_enclosing_brackets s = s"
  by (cases s) (auto simp: strip_enclosing_brackets_def)

lemma strip_enclosing_enclosed: "strip_enclosing_brackets (CHR ''['' # s @ '']'') = s"
  by (simp add: strip_enclosing_brackets_def butlast_append)

lemma float_each_all:
  "float_each f ts = (if list_all (\<lambda>t. f t \<noteq> None) ts then Some (map (\<lambda>t. the (f t)) ts) else None)"
  by (induction ts) (auto split: option.splits)

text \<open>
  Claim C5, as stated, fails: \<open>convert_to_list\<close> removes every bracket of the string, not
  one enclosing pair, so a nested list in a string is read as a flat list where the
  reference definition rejects its tokens.
\<close>

theorem convert_to_list_counterexample:
  "convert_to_list py_float (PStr ''[[1,2],[3,4]]'') = [PFloat 1, PFloat 2, PFloat 3, PFloat 4]
   \<and> toNumericList py_float (PStr ''[[1,2],[3,4]]'') = []"
  by code_simp

text \<open>
  Claim C5, amended. A list is returned unchanged. Of a string every bracket character is
  removed, wherever it stands; the rest is split on commas and every token is read as a
  float; one token that is no float makes the result the empty list. On a string whose
  only brackets are one enclosing pair, or none, this is the reference definition. Any
  other value gives the empty list. The four examples of the claim hold.
\<close>

theorem convert_to_list_spec:
  "convert_to_list float_of (PList xs) = xs
   \<and> convert_to_list float_of (PStr s) =
       (if list_all (\<lambda>t. float_of t \<noteq> None) (split_on CHR '','' (without_brackets s))
        then map (\<lambda>t. PFloat (the (float_of t))) (split_on CHR '','' (without_brackets s))
        else [])
   \<and> (CHR ''['' \<notin> set s \<and> CHR '']'' \<notin> set s \<longrightarrow>
        convert_to_list float_of (PStr s) = toNumericList float_of (PStr s)
        \<and> convert_to_list float_of (PStr (CHR ''['' # s @ '']'')) =
            toNumericList float_of (PStr (CHR ''['' # s @ '']'')))
   \<and> convert_to_list float_of PNone = []
   \<and> convert_to_list float_of (PBool b) = []
   \<and> convert_to_list float_of (PInt i) = []
   \<and> convert_to_list float_of (PFloat x) = []
   \<and> convert_to_list float_of (PDict kvs) = []
   \<and> convert_to_list py_float (PStr ''[1.0, 2.5, 3]'') = [PFloat 1, PFloat (5 / 2), PFloat 3]
   \<and> convert_to_list py_float (PStr ''bad,data'') = []
   \<and> convert_to_list float_of (PList [PInt 1, PInt 2]) = [PInt 1, PInt 2]"
proof -
  have str: "convert_to_list float_of (PStr s) =
       (if list_all (\<lambda>t. float_of t \<noteq> None) (split_on CHR '','' (without_brackets s))
        then map (\<lambda>t. PFloat (the (float_of t))) (split_on CHR '','' (without_brackets s))
        else [])"
    by (simp add: remove_both float_each_all comp_def)
  have agree: "CHR ''['' \<notin> set s \<and> CHR '']'' \<notin> set s \<longrightarrow>
        convert_to_list float_of (PStr s) = toNumericList float_of (PStr s)
        \<and> convert_to_list float_of (PStr (CHR ''['' # s @ '']'')) =
            toNumericList float_of (PStr (CHR ''['' # s @ '']''))"
    by (simp add: remove_both without_brackets_id without_brackets_enclosed strip_enclosing_id
          strip_enclosing_enclosed)
  have ex1: "convert_to_list py_float (PStr ''[1.0, 2.5, 3]'') = [PFloat 1, PFloat (5 / 2), PFloat 3]"
    by code_simp
  have ex2: "convert_to_list py_float (PStr ''bad,data'') = []"
    by code_simp
  show ?thesis
    using str agree ex1 ex2 by simp
qed

theorem convert_to_list_witness:
  "CHR ''['' \<notin> set ''1.0, 2.5, 3'' \<and> CHR '']'' \<notin> set ''1.0, 2.5, 3''
   \<and> convert_to_list py_float (PStr ''1.0, 2.5, 3'') = toNumericList py_float (PStr ''1.0, 2.5, 3'')
   \<and> convert_to_list py_float (PStr ''[1.0, 2.5, 3]'') = toNumericList py_float (PStr ''[1.0, 2.5, 3]'')
   \<and> toNumericList py_float (PStr ''[1.0, 2.5, 3]'') = [PFloat 1, PFloat (5 / 2), PFloat 3]"
proof -
  have free: "CHR ''['' \<notin> set ''1.0, 2.5, 3'' \<and> CHR '']'' \<notin> set ''1.0, 2.5, 3''"
    by simp
  have enclosed: "CHR ''['' # ''1.0, 2.5, 3'' @ '']'' = ''[1.0, 2.5, 3]''"
    by simp
  have reference: "toNumericList py_float (PStr ''[1.0, 2.5, 3]'') = [PFloat 1, PFloat (5 / 2), PFloat 3]"
    by code_simp
  from convert_to_list_spec [of py_float "[]" "''1.0, 2.5, 3''"]
  have "CHR ''['' \<notin> set ''1.0, 2.5, 3'' \<and> CHR '']'' \<notin> set ''1.0, 2.5, 3'' \<longrightarrow>
        convert_to_list py_float (PStr ''1.0, 2.5, 3'') = toNumericList py_float (PStr ''1.0, 2.5, 3'')
        \<and> convert_to_list py_float (PStr (CHR ''['' # ''1.0, 2.5, 3'' @ '']'')) =
            toNumericList py_float (PStr (CHR ''['' # ''1.0, 2.5, 3'' @ '']''))"
    by blast
  with free have "convert_to_list py_float (PStr ''1.0, 2.5, 3'') = toNumericList py_float (PStr ''1.0, 2.5, 3'')
        \<and> convert_to_list py_float (PStr (CHR ''['' # ''1.0, 2.5, 3'' @ '']'')) =
            toNumericList py_float (PStr (CHR ''['' # ''1.0, 2.5, 3'' @ '']''))"
    by blast
  then have "convert_to_list py_float (PStr ''1.0, 2.5, 3'') = toNumericList py_float (PStr ''1.0, 2.5, 3'')
        \<and> convert_to_list py_float (PStr ''[1.0, 2.5, 3]'') = toNumericList py_float (PStr ''[1.0, 2.5, 3]'')"
    unfolding enclosed .
  with free reference show ?thesis by blast
qed

subsection \<open>The extractor, stage by stage\<close>

lemma pbind_Inl [simp]: "pbind (Inl e) f = Inl e"
  by (simp add: pbind_def)

lemma pbind_Inr [simp]: "pbind (Inr x) f = f x"
  by (simp add: pbind_def)

lemma pbind_assoc: "pbind (pbind m f) g = pbind m (\<lambda>x. pbind (f x) g)"
  by (cases m) simp_all


lemma pbind_return [simp]: "pbind m Inr = m"
  by (cases m) simp_all

lemma pbind_if: "pbind (if b then m else n) f = (if b then pbind m f else pbind n f)"
  by simp


lemma parse_ego_staged:
  "parse_ego frame =
     pbind (ego_parts frame) (\<lambda>p.
       if \<not> truthy (snd p) then Inr []
       else pbind (ego_timestamp (snd p)) (\<lambda>timestamp. ego_pose timestamp (fst p)))"
  by (simp add: parse_ego_def ego_parts_def ego_timestamp_def ego_pose_def pbind_assoc
        cong: if_cong)

lemma header_stamp_parts:
  "header_stamp_of frame = pbind (ego_parts frame) (\<lambda>p. Inr (snd p))"
  by (simp add: header_stamp_of_def ego_parts_def pbind_assoc)




lemma parse_ego_stamp_error: "header_stamp_of frame = Inl e \<Longrightarrow> parse_ego frame = Inl e"
  unfolding parse_ego_staged header_stamp_parts by (cases "ego_parts frame") simp_all














subsection \<open>Field sets and row counts\<close>




subsection \<open>The ego row and its time stamp\<close>







subsection \<open>Distance bins\<close>


lemma set_present_keys: "(a, b) \<in> set (present_keys ks) \<longleftrightarrow> (Some a, Some b) \<in> set ks"
  by (induction ks rule: present_keys.induct) auto













end
